theory Spec2Isabelle
  imports
    Main
    "HOL-Library.Char_ord"
    "HOL-Library.List_Lexorder"
    "HOL-Library.Product_Lexorder"
    "HOL-Library.Multiset"
begin

section \<open>Message model\<close>

text \<open>
  Python \<^verbatim>\<open>bytes\<close> values are byte strings; they are compared byte by byte, and ordered
  lexicographically by byte value. \<open>string\<close> with the orders of \<open>Char_ord\<close> and
  \<open>List_Lexorder\<close> is exactly that.
\<close>

type_synonym bytes = string

text \<open>
  Modelled from the spec: the classes \<^verbatim>\<open>HTTPRequest\<close> and \<^verbatim>\<open>HTTPResponse\<close> are imported by
  \<^verbatim>\<open>diff_fuzz.py\<close> from the module \<^verbatim>\<open>http1\<close>, which is not among the sources. The fields are
  those of section 3 of the specification; \<^verbatim>\<open>diff_fuzz.py\<close> itself reads \<^verbatim>\<open>headers\<close>,
  \<^verbatim>\<open>method\<close>, \<^verbatim>\<open>version\<close> of a request and \<^verbatim>\<open>code\<close> of a response. Equality of two requests
  (\<^verbatim>\<open>r1 != r2\<close>) is structural, which is the equality of the record. The field
  \<^verbatim>\<open>method\<close> is \<open>method_token\<close> here, since \<open>method\<close> is a keyword.
\<close>

record HTTPRequest =
  headers :: "(bytes \<times> bytes) list"
  body :: bytes
  method_token :: bytes
  target :: bytes
  version :: bytes

record HTTPResponse =
  code :: bytes
  resp_headers :: "(bytes \<times> bytes) list"
  resp_body :: bytes

text \<open>
  Modelled from the spec: the class \<^verbatim>\<open>Server\<close> is imported from the module \<^verbatim>\<open>targets\<close>, which
  is not among the sources. Every field below is read by \<^verbatim>\<open>diff_fuzz.py\<close> under this name
  (but for \<open>name\<close>, which only the commented-out diagnostics read). The header collections are
  lists, since the source concatenates them with \<^verbatim>\<open>+\<close>; the translation is a dictionary, kept
  as an association list whose first binding of a key is the one looked up; the method
  whitelist is optional (\<^verbatim>\<open>is not None\<close>); the character blacklist is a byte string.
\<close>

record Server =
  name :: string
  added_headers :: "bytes list"
  removed_headers :: "bytes list"
  trashed_headers :: "bytes list"
  header_name_translation :: "(bytes \<times> bytes) list"
  doesnt_support_persistence :: bool
  allows_http_0_9 :: bool
  requires_length_in_post :: bool
  allows_missing_host_header :: bool
  method_whitelist :: "bytes list option"
  method_character_blacklist :: bytes

text \<open>
  An entry of a result sequence: a request the server accepted, a response with which it
  rejected, or nothing at all (Python's \<^verbatim>\<open>None\<close>, which is also what \<^verbatim>\<open>zip_longest\<close> fills
  the shorter sequence with). The discriminators are the source's \<^verbatim>\<open>isinstance\<close> and
  \<^verbatim>\<open>is None\<close> tests.
\<close>

datatype entry =
    is_request: Request (request_of: HTTPRequest)
  | is_response: Response (response_of: HTTPResponse)
  | is_none: Absent

datatype DiscrepancyType =
    NO_DISCREPANCY
  | STATUS_DISCREPANCY
  | SUBTLE_DISCREPANCY
  | STREAM_DISCREPANCY

section \<open>Header operations\<close>

text \<open>\<^verbatim>\<open>bytes.lower()\<close>: the 26 ASCII capitals are mapped to their small letters.\<close>

definition lower_byte :: "char \<Rightarrow> char" where
  "lower_byte c =
     (case map_of (zip ''ABCDEFGHIJKLMNOPQRSTUVWXYZ'' ''abcdefghijklmnopqrstuvwxyz'') c of
        None \<Rightarrow> c
      | Some d \<Rightarrow> d)"

definition lower :: "bytes \<Rightarrow> bytes" where
  "lower b = map lower_byte b"

text \<open>
  Modelled from the spec: \<^verbatim>\<open>translate\<close> is imported from the module \<^verbatim>\<open>util\<close>, which is not
  among the sources. The specification calls the translation ``a name-to-name header-rename
  mapping'' through which a header name is rewritten: a name that is a key is replaced by
  its value, any other name is kept.
\<close>

definition translate :: "bytes \<Rightarrow> (bytes \<times> bytes) list \<Rightarrow> bytes" where
  "translate k tr = (case map_of tr k of None \<Rightarrow> k | Some k' \<Rightarrow> k')"

text \<open>
  Modelled from the spec: \<^verbatim>\<open>remove_request_header\<close>, \<^verbatim>\<open>translate_request_header_names\<close> and the
  method \<^verbatim>\<open>has_header\<close> belong to the module \<^verbatim>\<open>http1\<close>, which is not among the sources. By
  the specification they are the ``header-list operations (remove-by-name,
  rename-by-mapping)'' of an immutable value type: each returns a new request and leaves
  its argument alone. Removal takes out every header with the given name and keeps the
  others in order. Header names are matched without regard to case, as section 9 of the
  specification assumes (the source asks for \<^verbatim>\<open>b"host"\<close> where the specification's
  scenarios write \<^verbatim>\<open>Host\<close>).
\<close>

definition remove_request_header :: "HTTPRequest \<Rightarrow> bytes \<Rightarrow> HTTPRequest" where
  "remove_request_header req key =
     req\<lparr>headers := filter (\<lambda>(k, v). lower k \<noteq> lower key) (headers req)\<rparr>"

definition translate_request_header_names ::
    "HTTPRequest \<Rightarrow> (bytes \<times> bytes) list \<Rightarrow> HTTPRequest" where
  "translate_request_header_names req tr =
     req\<lparr>headers := map (\<lambda>(k, v). (translate k tr, v)) (headers req)\<rparr>"

definition has_header :: "HTTPRequest \<Rightarrow> bytes \<Rightarrow> bool" where
  "has_header req nm = list_ex (\<lambda>(k, v). lower k = lower nm) (headers req)"

section \<open>The request normaliser\<close>

text \<open>
  \<^verbatim>\<open>normalize_request\<close> (lines 26 to 53), as the value it returns. Each \<^verbatim>\<open>for\<close> loop
  rebinds \<^verbatim>\<open>r1\<close> to the result of one removal per name, which is a fold over the names in
  the order of the list; the generator of the second loop and the list comprehension of the
  third translate the other server's names through \<^verbatim>\<open>s1\<close>'s translation first.
\<close>

definition remove_all :: "bytes list \<Rightarrow> HTTPRequest \<Rightarrow> HTTPRequest" where
  "remove_all ks r = fold (\<lambda>k r. remove_request_header r k) ks r"

definition normalize_request :: "HTTPRequest \<Rightarrow> Server \<Rightarrow> Server \<Rightarrow> HTTPRequest" where
  "normalize_request r1 s1 s2 =
     (let r1 = remove_all (added_headers s1) r1;
          r1 = remove_all
                 (map (\<lambda>k. translate k (header_name_translation s1)) (added_headers s2)) r1;
          r1 = remove_all
                 (map (\<lambda>k. translate k (header_name_translation s1))
                      (removed_headers s2 @ trashed_headers s2)
                  @ trashed_headers s1
                  @ removed_headers s1) r1;
          r1 = (if length (header_name_translation s2) > 0
                then translate_request_header_names r1 (header_name_translation s2)
                else r1)
      in r1\<lparr>headers := sort (headers r1)\<rparr>)"

section \<open>The classifier\<close>

text \<open>
  One pass through the body of the inner loop (lines 72 to 172) ends in one of three ways:
  \<^verbatim>\<open>break\<close> (the pair of servers is done, without a discrepancy), \<^verbatim>\<open>return\<close> of a
  discrepancy, or falling off the end of the body, which goes on to the next position.
\<close>

datatype flow = Break | Return DiscrepancyType | Continue

text \<open>
  The five exceptions of the accept/reject case, each the condition of one \<^verbatim>\<open>if\<close> of the
  source, with the source's own variables in the source's own places.
\<close>

definition http_0_9_exception :: "Server \<Rightarrow> Server \<Rightarrow> entry \<Rightarrow> entry \<Rightarrow> bool" where
  "http_0_9_exception s1 s2 r1 r2 \<longleftrightarrow>
     (is_request r1 \<and> version (request_of r1) = ''0.9''
        \<and> is_response r2 \<and> \<not> allows_http_0_9 s2)
   \<or> (is_request r2 \<and> version (request_of r2) = ''0.9''
        \<and> is_response r1 \<and> \<not> allows_http_0_9 s2)"

definition length_in_post_exception :: "Server \<Rightarrow> Server \<Rightarrow> entry \<Rightarrow> entry \<Rightarrow> bool" where
  "length_in_post_exception s1 s2 r1 r2 \<longleftrightarrow>
     (is_response r1 \<and> code (response_of r1) = ''411'' \<and> requires_length_in_post s1
        \<and> is_request r2 \<and> method_token (request_of r2) = ''POST''
        \<and> \<not> requires_length_in_post s2)
   \<or> (is_response r2 \<and> code (response_of r2) = ''411'' \<and> requires_length_in_post s2
        \<and> is_request r1 \<and> method_token (request_of r1) = ''POST''
        \<and> \<not> requires_length_in_post s1)"

definition missing_host_exception :: "Server \<Rightarrow> Server \<Rightarrow> entry \<Rightarrow> entry \<Rightarrow> bool" where
  "missing_host_exception s1 s2 r1 r2 \<longleftrightarrow>
     ((is_none r1 \<or> (is_response r1 \<and> code (response_of r1) = ''400''))
        \<and> \<not> allows_missing_host_header s1
        \<and> is_request r2
        \<and> allows_missing_host_header s2
        \<and> \<not> has_header (request_of r2) ''host'')
   \<or> ((is_none r2 \<or> (is_response r2 \<and> code (response_of r2) = ''400''))
        \<and> \<not> allows_missing_host_header s2
        \<and> is_request r1
        \<and> allows_missing_host_header s1
        \<and> \<not> has_header (request_of r1) ''host'')"

definition method_whitelist_exception :: "Server \<Rightarrow> Server \<Rightarrow> entry \<Rightarrow> entry \<Rightarrow> bool" where
  "method_whitelist_exception s1 s2 r1 r2 \<longleftrightarrow>
     (method_whitelist s1 \<noteq> None
        \<and> is_response r1
        \<and> is_request r2
        \<and> method_token (request_of r2) \<notin> set (the (method_whitelist s1)))
   \<or> (method_whitelist s2 \<noteq> None
        \<and> is_response r2
        \<and> is_request r1
        \<and> method_token (request_of r1) \<notin> set (the (method_whitelist s2)))"

definition method_blacklist_exception :: "Server \<Rightarrow> Server \<Rightarrow> entry \<Rightarrow> entry \<Rightarrow> bool" where
  "method_blacklist_exception s1 s2 r1 r2 \<longleftrightarrow>
     (is_response r1
        \<and> is_request r2
        \<and> list_ex (\<lambda>b. b \<in> set (method_character_blacklist s1)) (method_token (request_of r2)))
   \<or> (is_response r2
        \<and> is_request r1
        \<and> list_ex (\<lambda>b. b \<in> set (method_character_blacklist s2)) (method_token (request_of r1)))"

text \<open>
  The body of the inner loop. In \<^verbatim>\<open>(r1 is None or r2 is None) and r1 is not r2\<close> one of the
  two is \<^verbatim>\<open>None\<close>, so the identity test asks whether the other one is \<^verbatim>\<open>None\<close> as well, which
  is what the inequality of two entries says then.
\<close>

definition compare_entries :: "Server \<Rightarrow> Server \<Rightarrow> entry \<Rightarrow> entry \<Rightarrow> flow" where
  "compare_entries s1 s2 r1 r2 =
     (if (is_none r1 \<and> is_response r2 \<and> code (response_of r2) = ''400'')
         \<or> (is_none r2 \<and> is_response r1 \<and> code (response_of r1) = ''400'')
      then Break
      else if (is_none r1 \<or> is_none r2) \<and> r1 \<noteq> r2
      then Return STREAM_DISCREPANCY
      else if (is_request r1 \<and> \<not> is_request r2) \<or> (\<not> is_request r1 \<and> is_request r2)
      then (if http_0_9_exception s1 s2 r1 r2 then Break
            else if length_in_post_exception s1 s2 r1 r2 then Break
            else if missing_host_exception s1 s2 r1 r2 then Break
            else if method_whitelist_exception s1 s2 r1 r2 then Break
            else if method_blacklist_exception s1 s2 r1 r2 then Break
            else Return STATUS_DISCREPANCY)
      else if is_request r1 \<and> is_request r2
      then (if normalize_request (request_of r1) s1 s2 \<noteq> normalize_request (request_of r2) s2 s1
            then Return SUBTLE_DISCREPANCY
            else Continue)
      else Continue)"

text \<open>\<^verbatim>\<open>itertools.zip_longest\<close> with its default fill value \<^verbatim>\<open>None\<close>.\<close>

fun zip_longest :: "entry list \<Rightarrow> entry list \<Rightarrow> (entry \<times> entry) list" where
  "zip_longest [] [] = []"
| "zip_longest (x # xs) [] = (x, Absent) # zip_longest xs []"
| "zip_longest [] (y # ys) = (Absent, y) # zip_longest [] ys"
| "zip_longest (x # xs) (y # ys) = (x, y) # zip_longest xs ys"

text \<open>
  The inner loop: \<open>None\<close> when it ends (by \<^verbatim>\<open>break\<close> or by exhaustion) and the outer loop goes
  on, \<open>Some d\<close> when the function returns \<open>d\<close> from inside it.
\<close>

fun compare_streams :: "Server \<Rightarrow> Server \<Rightarrow> (entry \<times> entry) list \<Rightarrow> DiscrepancyType option" where
  "compare_streams s1 s2 [] = None"
| "compare_streams s1 s2 ((r1, r2) # rest) =
     (case compare_entries s1 s2 r1 r2 of
        Break \<Rightarrow> None
      | Return d \<Rightarrow> Some d
      | Continue \<Rightarrow> compare_streams s1 s2 rest)"

text \<open>The body of the outer loop (lines 68 to 172) for one pair of servers.\<close>

definition compare_pair ::
    "entry list \<times> Server \<Rightarrow> entry list \<times> Server \<Rightarrow> DiscrepancyType option" where
  "compare_pair p1 p2 =
     (case (p1, p2) of ((pts1, s1), (pts2, s2)) \<Rightarrow>
        (let (pts1, pts2) =
               (if doesnt_support_persistence s1 \<or> doesnt_support_persistence s2
                then (take 1 pts1, take 1 pts2)
                else (pts1, pts2))
         in compare_streams s1 s2 (zip_longest pts1 pts2)))"

text \<open>\<^verbatim>\<open>itertools.combinations(xs, 2)\<close>: the pairs at increasing indices, in lexicographic order.\<close>

fun combinations2 :: "'a list \<Rightarrow> ('a \<times> 'a) list" where
  "combinations2 [] = []"
| "combinations2 (x # xs) = map (Pair x) xs @ combinations2 xs"

text \<open>The outer loop, and the \<^verbatim>\<open>return\<close> of line 173 when it is exhausted.\<close>

fun compare_all ::
    "((entry list \<times> Server) \<times> (entry list \<times> Server)) list \<Rightarrow> DiscrepancyType" where
  "compare_all [] = NO_DISCREPANCY"
| "compare_all ((p1, p2) # rest) =
     (case compare_pair p1 p2 of
        Some d \<Rightarrow> d
      | None \<Rightarrow> compare_all rest)"

definition categorize_discrepancy :: "entry list list \<Rightarrow> Server list \<Rightarrow> DiscrepancyType" where
  "categorize_discrepancy parse_trees servers =
     compare_all (combinations2 (zip parse_trees servers))"

section \<open>The normaliser on objects\<close>

text \<open>
  Python passes requests by reference, and \<^verbatim>\<open>r1.headers.sort()\<close> sorts the header list of
  whatever object \<^verbatim>\<open>r1\<close> is bound to at line 52. To say which object that is, requests live
  in a store: \<open>objs\<close> gives the request at every reference, and the references below
  \<open>fresh\<close> are the ones in use.
\<close>

record heap =
  objs :: "nat \<Rightarrow> HTTPRequest"
  fresh :: nat

text \<open>The constructor call of a helper of \<^verbatim>\<open>http1\<close>: the new request gets the next reference.\<close>

definition new_request :: "heap \<Rightarrow> HTTPRequest \<Rightarrow> heap \<times> nat" where
  "new_request h r = (h\<lparr>objs := (objs h)(fresh h := r), fresh := Suc (fresh h)\<rparr>, fresh h)"

text \<open>
  Modelled from the spec: the two helpers of \<^verbatim>\<open>http1\<close> on objects. The message model is one
  of ``immutable value types'', so a helper builds a new request from the one it is given and
  writes to no existing one. The state is the store together with the reference that the
  variable \<^verbatim>\<open>r1\<close> holds.
\<close>

definition remove_request_header_obj :: "bytes \<Rightarrow> heap \<times> nat \<Rightarrow> heap \<times> nat" where
  "remove_request_header_obj key st =
     (case st of (h, a) \<Rightarrow> new_request h (remove_request_header (objs h a) key))"

definition translate_request_header_names_obj ::
    "(bytes \<times> bytes) list \<Rightarrow> heap \<times> nat \<Rightarrow> heap \<times> nat" where
  "translate_request_header_names_obj tr st =
     (case st of (h, a) \<Rightarrow> new_request h (translate_request_header_names (objs h a) tr))"

text \<open>Line 52, \<^verbatim>\<open>r1.headers.sort()\<close>: the list of the object that \<^verbatim>\<open>r1\<close> refers to is overwritten.\<close>

definition sort_headers_in_place :: "heap \<times> nat \<Rightarrow> heap \<times> nat" where
  "sort_headers_in_place st =
     (case st of (h, a) \<Rightarrow>
        (h\<lparr>objs := (objs h)(a := (objs h a)\<lparr>headers := sort (headers (objs h a))\<rparr>)\<rparr>, a))"

text \<open>
  \<^verbatim>\<open>normalize_request\<close> once more, now with the store: the same three loops, the same
  conditional renaming, the sort in place, and the reference that is returned.
\<close>

definition normalize_request_obj :: "heap \<Rightarrow> nat \<Rightarrow> Server \<Rightarrow> Server \<Rightarrow> heap \<times> nat" where
  "normalize_request_obj h r1 s1 s2 =
     (let st = fold remove_request_header_obj (added_headers s1) (h, r1);
          st = fold remove_request_header_obj
                 (map (\<lambda>k. translate k (header_name_translation s1)) (added_headers s2)) st;
          st = fold remove_request_header_obj
                 (map (\<lambda>k. translate k (header_name_translation s1))
                      (removed_headers s2 @ trashed_headers s2)
                  @ trashed_headers s1
                  @ removed_headers s1) st;
          st = (if length (header_name_translation s2) > 0
                then translate_request_header_names_obj (header_name_translation s2) st
                else st)
      in sort_headers_in_place st)"

text \<open>The request a state's reference points to.\<close>

definition value_at :: "heap \<times> nat \<Rightarrow> HTTPRequest" where
  "value_at st = objs (fst st) (snd st)"

text \<open>
  \<open>preserves h h'\<close>: every request that was in use in \<open>h\<close> is the same in \<open>h'\<close>.
  \<open>fresh_copy h st\<close>: moreover the reference of \<open>st\<close> was allocated after \<open>h\<close>.
\<close>

definition preserves :: "heap \<Rightarrow> heap \<Rightarrow> bool" where
  "preserves h h' \<longleftrightarrow> fresh h \<le> fresh h' \<and> (\<forall>a < fresh h. objs h' a = objs h a)"

definition fresh_copy :: "heap \<Rightarrow> heap \<times> nat \<Rightarrow> bool" where
  "fresh_copy h st \<longleftrightarrow> preserves h (fst st) \<and> fresh h \<le> snd st \<and> snd st < fresh (fst st)"

section \<open>Names used to state the properties\<close>

text \<open>
  All the names that the three removal loops of \<^verbatim>\<open>normalize_request\<close> go through, in the
  order in which they do, and the test whether a header of a given name is removed by them.
\<close>

definition removal_names :: "Server \<Rightarrow> Server \<Rightarrow> bytes list" where
  "removal_names s1 s2 =
     added_headers s1
     @ map (\<lambda>k. translate k (header_name_translation s1)) (added_headers s2)
     @ map (\<lambda>k. translate k (header_name_translation s1))
           (removed_headers s2 @ trashed_headers s2)
     @ trashed_headers s1
     @ removed_headers s1"

definition removes :: "Server \<Rightarrow> Server \<Rightarrow> bytes \<Rightarrow> bool" where
  "removes s1 s2 k \<longleftrightarrow> lower k \<in> set (map lower (removal_names s1 s2))"

text \<open>Concrete inputs: a profile with no quirk at all, a bare \<^verbatim>\<open>GET /\<close>, a bare rejection.\<close>

definition no_quirks :: Server where
  "no_quirks =
     \<lparr>name = ''plain'', added_headers = [], removed_headers = [], trashed_headers = [],
      header_name_translation = [], doesnt_support_persistence = False,
      allows_http_0_9 = False, requires_length_in_post = False,
      allows_missing_host_header = False, method_whitelist = None,
      method_character_blacklist = ''''\<rparr>"

definition simple_request :: "bytes \<Rightarrow> (bytes \<times> bytes) list \<Rightarrow> HTTPRequest" where
  "simple_request v hs =
     \<lparr>headers = hs, body = '''', method_token = ''GET'', target = ''/'', version = v\<rparr>"

definition rejection :: "bytes \<Rightarrow> HTTPResponse" where
  "rejection c = \<lparr>code = c, resp_headers = [], resp_body = ''''\<rparr>"

text \<open>A store holding one request, at reference 0, whose headers are not in sorted order.\<close>

definition heap0 :: heap where
  "heap0 =
     \<lparr>objs = (\<lambda>a. simple_request ''1.1'' [(''b'', ''2''), (''a'', ''1'')]), fresh = 1\<rparr>"

section \<open>Properties of the classifier\<close>

lemmas exception_defs =
  http_0_9_exception_def length_in_post_exception_def missing_host_exception_def
  method_whitelist_exception_def method_blacklist_exception_def

lemmas example_defs = no_quirks_def simple_request_def rejection_def

subsection \<open>Fewer than two servers\<close>

lemma combinations2_short: "length xs < 2 \<Longrightarrow> combinations2 xs = []"
  by (cases xs rule: combinations2.cases) (auto simp: Suc_less_eq2 less_Suc_eq)

text \<open>
  Claim C10. When the two parallel lists have fewer than two elements (length 0 or 1), there
  is no pair of servers to compare: \<^verbatim>\<open>combinations\<close> yields nothing, the loop body never
  runs, no entry is looked at, and the function returns \<open>NO_DISCREPANCY\<close> instead of failing.
\<close>

theorem fewer_than_two_servers:
  "length parse_trees = length servers \<Longrightarrow> length servers < 2 \<Longrightarrow>
   categorize_discrepancy parse_trees servers = NO_DISCREPANCY"
  by (simp add: categorize_discrepancy_def combinations2_short)

theorem fewer_than_two_servers_witness:
  "categorize_discrepancy [[Request (simple_request ''1.1'' [])]] [no_quirks] = NO_DISCREPANCY"
  by (rule fewer_than_two_servers) simp_all

subsection \<open>Lists of different lengths\<close>

text \<open>
  Claim C5, as stated: lists of different lengths make the call fail loudly instead of giving
  a verdict. The source has no assertion and no \<^verbatim>\<open>raise\<close>; \<^verbatim>\<open>zip\<close> stops at the shorter
  list. Here two sequences come with one profile: the call returns \<open>NO_DISCREPANCY\<close>, though
  the first server accepted what the second one rejected.
\<close>

theorem length_mismatch_gives_verdict:
  "length [[Request (simple_request ''1.1'' [])], [Response (rejection ''505'')]]
     \<noteq> length [no_quirks]
   \<and> categorize_discrepancy
       [[Request (simple_request ''1.1'' [])], [Response (rejection ''505'')]] [no_quirks]
     = NO_DISCREPANCY"
  by (simp add: categorize_discrepancy_def)

lemma zip_take_lengths: "zip (take (length ys) xs) (take (length xs) ys) = zip xs ys"
  by (induction xs ys rule: list_induct2') simp_all

text \<open>
  Claim C5, amended. The call never fails on lists of different lengths: it classifies as if
  the longer list had been cut to the length of the shorter one, so the surplus sequences or
  profiles have no influence on the verdict.
\<close>

theorem length_mismatch_truncates:
  "categorize_discrepancy parse_trees servers =
   categorize_discrepancy (take (length servers) parse_trees)
     (take (length parse_trees) servers)"
  by (simp add: categorize_discrepancy_def zip_take_lengths)

subsection \<open>Reflexivity\<close>

lemma zip_longest_same: "zip_longest xs xs = map (\<lambda>x. (x, x)) xs"
  by (induction xs) simp_all

lemma compare_entries_same: "compare_entries s s r r = Continue"
  by (cases r) (simp_all add: compare_entries_def)

lemma compare_streams_same: "compare_streams s s (map (\<lambda>x. (x, x)) xs) = None"
  by (induction xs) (simp_all add: compare_entries_same)

lemma compare_pair_same: "compare_pair (pts, s) (pts, s) = None"
  by (simp add: compare_pair_def zip_longest_same compare_streams_same)

text \<open>
  Claim C7. Classification is reflexive: a result sequence compared with itself under one
  and the same profile gives \<open>NO_DISCREPANCY\<close>, whatever the sequence and the profile are.
\<close>

theorem classify_reflexive:
  "categorize_discrepancy [seq, seq] [prof, prof] = NO_DISCREPANCY"
  by (simp add: categorize_discrepancy_def compare_pair_same)

subsection \<open>Servers without persistent connections\<close>

text \<open>
  Claim C6. When at least one server of a pair does not support persistent connections, the
  verdict for the pair depends on the first entry of each sequence only: two inputs that
  agree on \<open>take 1\<close> of both sequences get the same verdict, whatever follows.
\<close>

theorem non_persistent_pair_first_entries_only:
  "doesnt_support_persistence s1 \<or> doesnt_support_persistence s2 \<Longrightarrow>
   take 1 pts1 = take 1 pts1' \<Longrightarrow> take 1 pts2 = take 1 pts2' \<Longrightarrow>
   compare_pair (pts1, s1) (pts2, s2) = compare_pair (pts1', s1) (pts2', s2)"
  by (simp add: compare_pair_def)

theorem non_persistent_pair_first_entries_only_witness:
  "compare_pair
     ([Request (simple_request ''1.1'' []), Response (rejection ''505'')],
      no_quirks\<lparr>doesnt_support_persistence := True\<rparr>)
     ([Request (simple_request ''1.1'' [])], no_quirks)
   = compare_pair
     ([Request (simple_request ''1.1'' [])],
      no_quirks\<lparr>doesnt_support_persistence := True\<rparr>)
     ([Request (simple_request ''1.1'' []), Request (simple_request ''1.1'' [(''host'', ''x'')])],
      no_quirks)"
  by (rule non_persistent_pair_first_entries_only) (simp_all add: no_quirks_def)

subsection \<open>Both servers rejected\<close>

lemma compare_entries_responses:
  "compare_entries s1 s2 (Response a) (Response b) = Continue"
  by (simp add: compare_entries_def)

lemma compare_entries_response_absent:
  "compare_entries s1 s2 (Response a) Absent \<noteq> Return STATUS_DISCREPANCY"
  "compare_entries s1 s2 Absent (Response a) \<noteq> Return STATUS_DISCREPANCY"
  by (simp_all add: compare_entries_def)

lemma compare_streams_responses:
  "\<forall>e \<in> set pts1. is_response e \<Longrightarrow> \<forall>e \<in> set pts2. is_response e \<Longrightarrow>
   compare_streams s1 s2 (zip_longest pts1 pts2) \<noteq> Some STATUS_DISCREPANCY"
proof (induction pts1 pts2 rule: zip_longest.induct)
  case 1
  then show ?case by simp
next
  case (2 x xs)
  then obtain a where "x = Response a" by (cases x) auto
  with 2 show ?case using compare_entries_response_absent(1) [of s1 s2 a]
    by (auto split: flow.splits)
next
  case (3 y ys)
  then obtain a where "y = Response a" by (cases y) auto
  with 3 show ?case using compare_entries_response_absent(2) [of s1 s2 a]
    by (auto split: flow.splits)
next
  case (4 x xs y ys)
  then obtain a b where "x = Response a" "y = Response b" by (cases x; cases y) auto
  with 4 show ?case by (simp add: compare_entries_responses)
qed

lemma compare_pair_responses:
  assumes "\<forall>e \<in> set pts1. is_response e" and "\<forall>e \<in> set pts2. is_response e"
  shows "compare_pair (pts1, s1) (pts2, s2) \<noteq> Some STATUS_DISCREPANCY"
proof -
  have "\<forall>e \<in> set (take 1 pts1). is_response e" and "\<forall>e \<in> set (take 1 pts2). is_response e"
    using assms by (auto dest: in_set_takeD)
  then show ?thesis
    using assms by (simp add: compare_pair_def compare_streams_responses)
qed

text \<open>
  Claim C8. A position at which both servers answered with a response is not a discrepancy,
  whatever the two status codes are, and the traversal goes on with the next position. And
  a pair of sequences that consist of responses only is never classified as
  \<open>STATUS_DISCREPANCY\<close>.
\<close>

theorem both_rejected_continues:
  "compare_streams s1 s2 ((Response a, Response b) # rest) = compare_streams s1 s2 rest
   \<and> ((\<forall>e \<in> set pts1. is_response e) \<and> (\<forall>e \<in> set pts2. is_response e)
        \<longrightarrow> compare_pair (pts1, s1) (pts2, s2) \<noteq> Some STATUS_DISCREPANCY)"
  by (simp add: compare_entries_responses compare_pair_responses)

theorem both_rejected_continues_witness:
  "compare_streams no_quirks no_quirks
     [(Response (rejection ''400''), Response (rejection ''404'')),
      (Response (rejection ''505''), Absent)]
   = compare_streams no_quirks no_quirks [(Response (rejection ''505''), Absent)]
   \<and> compare_pair ([Response (rejection ''400''), Response (rejection ''505'')], no_quirks)
                  ([Response (rejection ''404'')], no_quirks)
     \<noteq> Some STATUS_DISCREPANCY"
  using both_rejected_continues
    [where ?s1.0 = no_quirks and ?s2.0 = no_quirks
       and a = "rejection ''400''" and b = "rejection ''404''"
       and rest = "[(Response (rejection ''505''), Absent)]"
       and ?pts1.0 = "[Response (rejection ''400''), Response (rejection ''505'')]"
       and ?pts2.0 = "[Response (rejection ''404'')]"]
  by simp

subsection \<open>Swapping the two servers\<close>

lemma exceptions_swap:
  "length_in_post_exception s2 s1 r2 r1 = length_in_post_exception s1 s2 r1 r2"
  "missing_host_exception s2 s1 r2 r1 = missing_host_exception s1 s2 r1 r2"
  "method_whitelist_exception s2 s1 r2 r1 = method_whitelist_exception s1 s2 r1 r2"
  "method_blacklist_exception s2 s1 r2 r1 = method_blacklist_exception s1 s2 r1 r2"
  unfolding exception_defs by blast+

lemma http_0_9_exception_swap:
  "allows_http_0_9 s1 = allows_http_0_9 s2 \<Longrightarrow>
   http_0_9_exception s2 s1 r2 r1 = http_0_9_exception s1 s2 r1 r2"
  unfolding http_0_9_exception_def by blast

text \<open>
  Four of the five exceptions are written once for each order of the servers, with \<^verbatim>\<open>s1\<close>
  and \<^verbatim>\<open>s2\<close> exchanged. The HTTP/0.9 test reads \<^verbatim>\<open>s2.allows_http_0_9\<close> in both halves, so it
  is the same in both orders only when the two profiles agree on that flag; then one pass
  through the loop body does not depend on the order of the servers.
\<close>

lemma compare_entries_swap:
  assumes "allows_http_0_9 s1 = allows_http_0_9 s2"
  shows "compare_entries s2 s1 r2 r1 = compare_entries s1 s2 r1 r2"
proof -
  have a: "((is_none r2 \<and> is_response r1 \<and> code (response_of r1) = ''400'')
         \<or> (is_none r1 \<and> is_response r2 \<and> code (response_of r2) = ''400''))
       = ((is_none r1 \<and> is_response r2 \<and> code (response_of r2) = ''400'')
         \<or> (is_none r2 \<and> is_response r1 \<and> code (response_of r1) = ''400''))"
    by blast
  have b: "((is_none r2 \<or> is_none r1) \<and> r2 \<noteq> r1) = ((is_none r1 \<or> is_none r2) \<and> r1 \<noteq> r2)"
    by blast
  have c: "((is_request r2 \<and> \<not> is_request r1) \<or> (\<not> is_request r2 \<and> is_request r1))
         = ((is_request r1 \<and> \<not> is_request r2) \<or> (\<not> is_request r1 \<and> is_request r2))"
    by blast
  have d: "(is_request r2 \<and> is_request r1) = (is_request r1 \<and> is_request r2)"
    by blast
  have e: "(normalize_request (request_of r2) s2 s1 \<noteq> normalize_request (request_of r1) s1 s2)
         = (normalize_request (request_of r1) s1 s2 \<noteq> normalize_request (request_of r2) s2 s1)"
    by auto
  note x = exceptions_swap [of s2 s1 r2 r1] http_0_9_exception_swap [OF assms, of r2 r1]
  show ?thesis
    unfolding compare_entries_def [of s2 s1 r2 r1] a b c d e x
    unfolding compare_entries_def ..
qed

lemma zip_longest_swap: "zip_longest ys xs = map prod.swap (zip_longest xs ys)"
  by (induction xs ys rule: zip_longest.induct) simp_all

lemma compare_streams_swap:
  "allows_http_0_9 s1 = allows_http_0_9 s2 \<Longrightarrow>
   compare_streams s2 s1 (map prod.swap zs) = compare_streams s1 s2 zs"
  by (induction zs) (auto simp: compare_entries_swap split: flow.splits)

lemma compare_pair_swap:
  assumes "allows_http_0_9 s1 = allows_http_0_9 s2"
  shows "compare_pair (pts2, s2) (pts1, s1) = compare_pair (pts1, s1) (pts2, s2)"
proof -
  have "compare_streams s2 s1 (zip_longest ys xs) = compare_streams s1 s2 (zip_longest xs ys)"
    for xs ys
    by (subst zip_longest_swap) (rule compare_streams_swap [OF assms])
  then show ?thesis by (auto simp: compare_pair_def)
qed

lemma symmetric_if_http_0_9_flags_agree:
  "allows_http_0_9 profA = allows_http_0_9 profB \<Longrightarrow>
   categorize_discrepancy [seqB, seqA] [profB, profA]
   = categorize_discrepancy [seqA, seqB] [profA, profB]"
  by (simp add: categorize_discrepancy_def compare_pair_swap)

text \<open>
  Claim C1 (symmetry), at the input where the code departs from it. Server A rejects with
  505 and does not allow HTTP/0.9; server B accepts the message as an HTTP/0.9 request and
  allows HTTP/0.9. With A first the verdict is \<open>STATUS_DISCREPANCY\<close>, with B first it is
  \<open>NO_DISCREPANCY\<close>: line 96 reads \<^verbatim>\<open>s2.allows_http_0_9\<close> where the rejecting server is
  \<^verbatim>\<open>s1\<close>.
\<close>

theorem swapped_servers_differ_on_http_0_9:
  "categorize_discrepancy
     [[Response (rejection ''505'')], [Request (simple_request ''0.9'' [])]]
     [no_quirks, no_quirks\<lparr>allows_http_0_9 := True\<rparr>]
   = STATUS_DISCREPANCY
   \<and> categorize_discrepancy
     [[Request (simple_request ''0.9'' [])], [Response (rejection ''505'')]]
     [no_quirks\<lparr>allows_http_0_9 := True\<rparr>, no_quirks]
   = NO_DISCREPANCY"
  by (simp add: categorize_discrepancy_def compare_pair_def compare_entries_def
      exception_defs example_defs)

text \<open>
  Claim C2 (the HTTP/0.9 exception holds whichever server rejected), at the inputs where
  the code departs from it. The rejecting server does not allow HTTP/0.9 and the other one
  accepted an HTTP/0.9 request: the position is excused when the rejecter is the second
  server, and is a \<open>STATUS_DISCREPANCY\<close> when it is the first. Conversely, a first server
  that rejects although it allows HTTP/0.9 is excused whenever the accepting second server
  does not allow it.
\<close>

theorem http_0_9_exception_depends_on_order:
  "compare_entries (no_quirks\<lparr>allows_http_0_9 := True\<rparr>) no_quirks
     (Request (simple_request ''0.9'' [])) (Response (rejection ''505''))
   = Break
   \<and> compare_entries no_quirks (no_quirks\<lparr>allows_http_0_9 := True\<rparr>)
     (Response (rejection ''505'')) (Request (simple_request ''0.9'' []))
   = Return STATUS_DISCREPANCY
   \<and> compare_entries (no_quirks\<lparr>allows_http_0_9 := True\<rparr>) no_quirks
     (Response (rejection ''505'')) (Request (simple_request ''0.9'' []))
   = Break"
  by (simp add: compare_entries_def exception_defs example_defs)

subsection \<open>A missing entry against an accepted request\<close>

lemma absent_against_request:
  "compare_entries s1 s2 Absent (Request r) = Return STREAM_DISCREPANCY"
  "compare_entries s1 s2 (Request r) Absent = Return STREAM_DISCREPANCY"
  by (simp_all add: compare_entries_def)

text \<open>
  Claim C9 (the missing-Host exception covers a rejecter that produced no response), at the
  input where the code departs from it. The first server produced nothing and does not allow
  a missing Host header; the second accepted a request without a Host header and allows
  that. The condition of the exception (lines 117 to 129) holds, but it is never evaluated:
  line 79 has returned \<open>STREAM_DISCREPANCY\<close> before.
\<close>

theorem missing_host_exception_not_reached_when_absent:
  "missing_host_exception no_quirks (no_quirks\<lparr>allows_missing_host_header := True\<rparr>)
     Absent (Request (simple_request ''1.1'' []))
   \<and> compare_entries no_quirks (no_quirks\<lparr>allows_missing_host_header := True\<rparr>)
     Absent (Request (simple_request ''1.1'' []))
   = Return STREAM_DISCREPANCY
   \<and> categorize_discrepancy [[], [Request (simple_request ''1.1'' [])]]
     [no_quirks, no_quirks\<lparr>allows_missing_host_header := True\<rparr>]
   = STREAM_DISCREPANCY"
  by (simp add: categorize_discrepancy_def compare_pair_def absent_against_request
      missing_host_exception_def has_header_def example_defs)

section \<open>Properties of the normaliser\<close>

subsection \<open>What the normaliser computes\<close>

lemma remove_all_Nil: "remove_all [] r = r"
  by (simp add: remove_all_def)

lemma remove_all_Cons: "remove_all (k # ks) r = remove_all ks (remove_request_header r k)"
  by (simp add: remove_all_def)

lemma remove_all_append: "remove_all (ks @ ks') r = remove_all ks' (remove_all ks r)"
  by (simp add: remove_all_def)

lemma remove_all_eq:
  "remove_all ks r =
     r\<lparr>headers := filter (\<lambda>(k, v). lower k \<notin> set (map lower ks)) (headers r)\<rparr>"
proof (induction ks arbitrary: r)
  case Nil
  then show ?case by (simp add: remove_all_Nil)
next
  case (Cons a ks)
  have "filter (\<lambda>(k, v). lower k \<notin> set (map lower ks))
          (filter (\<lambda>(k, v). lower k \<noteq> lower a) hs)
        = filter (\<lambda>(k, v). lower k \<notin> set (map lower (a # ks))) hs"
    for hs :: "(bytes \<times> bytes) list"
    by (induction hs) auto
  then show ?case
    by (simp add: remove_all_Cons Cons.IH remove_request_header_def)
qed

lemma translate_Nil: "translate k [] = k"
  by (simp add: translate_def)

text \<open>
  The three loops, the renaming and the sort in one expression: the headers whose name is
  not among the removal names are kept, renamed through the other server's translation,
  and sorted. An empty translation renames nothing, so the test of line 49 disappears.
\<close>

lemma normalize_request_eq:
  "normalize_request r s1 s2 =
     r\<lparr>headers := sort (map (\<lambda>(k, v). (translate k (header_name_translation s2), v))
                          (filter (\<lambda>(k, v). \<not> removes s1 s2 k) (headers r)))\<rparr>"
proof -
  have rem:
    "remove_all
       (map (\<lambda>k. translate k (header_name_translation s1))
            (removed_headers s2 @ trashed_headers s2)
        @ trashed_headers s1
        @ removed_headers s1)
       (remove_all (map (\<lambda>k. translate k (header_name_translation s1)) (added_headers s2))
          (remove_all (added_headers s1) r))
     = remove_all (removal_names s1 s2) r"
    unfolding removal_names_def remove_all_append ..
  have tr:
    "(if length (header_name_translation s2) > 0
      then translate_request_header_names q (header_name_translation s2)
      else q)
     = translate_request_header_names q (header_name_translation s2)" for q
    by (cases "header_name_translation s2")
       (simp_all add: translate_request_header_names_def translate_Nil)
  show ?thesis
    unfolding normalize_request_def Let_def rem tr
    by (simp add: remove_all_eq translate_request_header_names_def removes_def)
qed

lemma sort_cong_mset: "mset xs = mset ys \<Longrightarrow> sort xs = sort (ys :: ('a::linorder) list)"
  by (metis properties_for_sort sorted_sort mset_sort)

text \<open>
  The result depends on the headers of the request as a multiset only. In particular a
  request whose header list has been sorted is normalised to the same value as before, so
  a sort in place at line 52 cannot change what a later comparison of the same request
  yields, and the classifier may be stated on values.
\<close>

lemma normalize_request_sorted_input:
  "normalize_request (r\<lparr>headers := sort (headers r)\<rparr>) s1 s2 = normalize_request r s1 s2"
proof -
  have "sort (map f (filter P (sort hs))) = sort (map f (filter P hs))"
    for f :: "bytes \<times> bytes \<Rightarrow> bytes \<times> bytes" and P hs
    by (rule sort_cong_mset) simp
  then show ?thesis
    unfolding normalize_request_eq by simp
qed

subsection \<open>Idempotence\<close>

text \<open>
  Claim C4, as stated: normalising twice is the same as normalising once, even when the
  other server's translation maps a header name onto a name in a removal set. Here the
  other server renames \<open>a\<close> to \<open>b\<close> and the own server is known to remove \<open>b\<close>: the first
  call keeps the header \<open>a\<close> and renames it to \<open>b\<close>, the second call removes it.
\<close>

theorem normalize_twice_differs:
  "normalize_request
     (normalize_request (simple_request ''1.1'' [(''a'', ''v'')])
        (no_quirks\<lparr>removed_headers := [''b'']\<rparr>)
        (no_quirks\<lparr>header_name_translation := [(''a'', ''b'')]\<rparr>))
     (no_quirks\<lparr>removed_headers := [''b'']\<rparr>)
     (no_quirks\<lparr>header_name_translation := [(''a'', ''b'')]\<rparr>)
   \<noteq> normalize_request (simple_request ''1.1'' [(''a'', ''v'')])
       (no_quirks\<lparr>removed_headers := [''b'']\<rparr>)
       (no_quirks\<lparr>header_name_translation := [(''a'', ''b'')]\<rparr>)"
  by (simp add: normalize_request_def remove_all_def remove_request_header_def
      translate_request_header_names_def translate_def lower_def lower_byte_def example_defs)

text \<open>
  Claim C4, amended. Normalising twice is the same as normalising once whenever every
  header that survives the removal steps is renamed to a name that the removal steps do
  not remove either and that the translation leaves as it is.
\<close>

theorem normalize_idempotent_if_renaming_stable:
  assumes "\<forall>(k, v) \<in> set (headers r). \<not> removes s1 s2 k \<longrightarrow>
             \<not> removes s1 s2 (translate k (header_name_translation s2))
           \<and> translate (translate k (header_name_translation s2)) (header_name_translation s2)
               = translate k (header_name_translation s2)"
  shows "normalize_request (normalize_request r s1 s2) s1 s2 = normalize_request r s1 s2"
proof -
  let ?ren = "\<lambda>(k, v). (translate k (header_name_translation s2), v)"
  let ?keep = "\<lambda>(k, v). \<not> removes s1 s2 k"
  define hs where "hs = map ?ren (filter ?keep (headers r))"
  have keep: "?keep h" and ren: "?ren h = h" if "h \<in> set hs" for h
    using that assms unfolding hs_def by auto
  have "filter ?keep (sort hs) = sort hs"
    using keep by (simp add: filter_id_conv del: split_paired_All)
  moreover have "map ?ren (sort hs) = sort hs"
    by (rule map_idI) (simp add: ren)
  ultimately have "sort (map ?ren (filter ?keep (sort hs))) = sort hs"
    by (simp add: sort_key_id_if_sorted)
  then show ?thesis
    unfolding normalize_request_eq [of "_\<lparr>headers := _\<rparr>"] normalize_request_eq [of r]
      hs_def [symmetric]
    by simp
qed

theorem normalize_idempotent_if_renaming_stable_witness:
  "normalize_request
     (normalize_request
        (simple_request ''1.1'' [(''host'', ''h''), (''a'', ''v''), (''X-Drop'', ''1'')])
        (no_quirks\<lparr>removed_headers := [''x-drop'']\<rparr>)
        (no_quirks\<lparr>header_name_translation := [(''a'', ''b'')]\<rparr>))
     (no_quirks\<lparr>removed_headers := [''x-drop'']\<rparr>)
     (no_quirks\<lparr>header_name_translation := [(''a'', ''b'')]\<rparr>)
   = normalize_request
       (simple_request ''1.1'' [(''host'', ''h''), (''a'', ''v''), (''X-Drop'', ''1'')])
       (no_quirks\<lparr>removed_headers := [''x-drop'']\<rparr>)
       (no_quirks\<lparr>header_name_translation := [(''a'', ''b'')]\<rparr>)"
  by (rule normalize_idempotent_if_renaming_stable)
     (simp add: removes_def removal_names_def translate_def lower_def lower_byte_def
        example_defs)

subsection \<open>Which object is sorted\<close>

lemma preserves_refl: "preserves h h"
  by (simp add: preserves_def)

lemma new_request_value: "value_at (new_request h r) = r"
  by (simp add: new_request_def value_at_def)

lemma remove_obj_value:
  "value_at (remove_request_header_obj k st) = remove_request_header (value_at st) k"
  by (cases st) (simp add: remove_request_header_obj_def new_request_value, simp add: value_at_def)

lemma translate_obj_value:
  "value_at (translate_request_header_names_obj tr st)
   = translate_request_header_names (value_at st) tr"
  by (cases st)
     (simp add: translate_request_header_names_obj_def new_request_value, simp add: value_at_def)

lemma fold_remove_value:
  "value_at (fold remove_request_header_obj ks st) = remove_all ks (value_at st)"
  by (induction ks arbitrary: st) (simp_all add: remove_all_Nil remove_all_Cons remove_obj_value)

lemma sort_in_place_value:
  "value_at (sort_headers_in_place st)
   = (value_at st)\<lparr>headers := sort (headers (value_at st))\<rparr>"
  by (cases st) (simp add: sort_headers_in_place_def value_at_def)

text \<open>
  The two models agree: the request that the returned reference points to is the value
  that \<open>normalize_request\<close> computes from the request that the argument pointed to.
\<close>

lemma normalize_request_obj_value:
  "value_at (normalize_request_obj h r1 s1 s2) = normalize_request (objs h r1) s1 s2"
  unfolding normalize_request_obj_def normalize_request_def Let_def
  by (simp add: sort_in_place_value translate_obj_value fold_remove_value remove_all_append,
      simp add: value_at_def)

lemma remove_obj_fresh:
  "preserves h (fst st) \<Longrightarrow> fresh_copy h (remove_request_header_obj k st)"
  by (cases st)
     (auto simp: remove_request_header_obj_def new_request_def fresh_copy_def preserves_def)

lemma translate_obj_fresh:
  "preserves h (fst st) \<Longrightarrow> fresh_copy h (translate_request_header_names_obj tr st)"
  by (cases st)
     (auto simp: translate_request_header_names_obj_def new_request_def fresh_copy_def
        preserves_def)

lemma fold_remove_fresh:
  "fresh_copy h st \<Longrightarrow> fresh_copy h (fold remove_request_header_obj ks st)"
proof (induction ks arbitrary: st)
  case Nil
  then show ?case by simp
next
  case (Cons k ks)
  from Cons.prems have "preserves h (fst st)" by (simp add: fresh_copy_def)
  then have "fresh_copy h (remove_request_header_obj k st)" by (rule remove_obj_fresh)
  then show ?case by (simp add: Cons.IH)
qed

lemma fold_remove_fresh_nonempty:
  "preserves h (fst st) \<Longrightarrow> ks \<noteq> [] \<Longrightarrow> fresh_copy h (fold remove_request_header_obj ks st)"
  by (cases ks) (simp_all add: fold_remove_fresh remove_obj_fresh)

lemma sort_in_place_fresh:
  "fresh_copy h st \<Longrightarrow> fresh_copy h (sort_headers_in_place st)"
  by (cases st) (auto simp: sort_headers_in_place_def fresh_copy_def preserves_def)

text \<open>
  As soon as one helper runs, that is, as soon as a removal list of the pair of profiles is
  not empty or the other server translates header names, the request that is sorted is a
  copy made by the call: every request that existed before is left as it was, and the
  reference returned is a new one.
\<close>

lemma normalize_request_obj_copies:
  assumes "removal_names s1 s2 \<noteq> [] \<or> header_name_translation s2 \<noteq> []"
  shows "fresh_copy h (normalize_request_obj h r1 s1 s2)"
proof -
  let ?ks1 = "added_headers s1"
  let ?ks2 = "map (\<lambda>k. translate k (header_name_translation s1)) (added_headers s2)"
  let ?ks3 = "map (\<lambda>k. translate k (header_name_translation s1))
                  (removed_headers s2 @ trashed_headers s2)
              @ trashed_headers s1
              @ removed_headers s1"
  define st0 where "st0 = fold remove_request_header_obj ?ks3
     (fold remove_request_header_obj ?ks2 (fold remove_request_header_obj ?ks1 (h, r1)))"
  define st where "st = fold remove_request_header_obj (?ks1 @ ?ks2 @ ?ks3) (h, r1)"
  have st0: "st0 = st" by (simp add: st0_def st_def)
  have unfolded: "normalize_request_obj h r1 s1 s2 =
      sort_headers_in_place
        (if length (header_name_translation s2) > 0
         then translate_request_header_names_obj (header_name_translation s2) st0
         else st0)"
    by (simp only: normalize_request_obj_def Let_def st0_def)
  have p: "preserves h (fst st)"
  proof (cases "?ks1 @ ?ks2 @ ?ks3 = []")
    case True
    then show ?thesis unfolding st_def by (simp add: preserves_refl)
  next
    case False
    then have "fresh_copy h st" unfolding st_def
      by (intro fold_remove_fresh_nonempty) (simp_all add: preserves_refl)
    then show ?thesis by (simp add: fresh_copy_def)
  qed
  have "fresh_copy h
          (if length (header_name_translation s2) > 0
           then translate_request_header_names_obj (header_name_translation s2) st
           else st)"
  proof (cases "header_name_translation s2 = []")
    case True
    with assms have "?ks1 @ ?ks2 @ ?ks3 \<noteq> []" by (simp add: removal_names_def)
    then have "fresh_copy h st" unfolding st_def
      by (intro fold_remove_fresh_nonempty) (simp_all add: preserves_refl)
    with True show ?thesis by simp
  next
    case False
    with p show ?thesis by (simp add: translate_obj_fresh)
  qed
  then have "fresh_copy h
          (sort_headers_in_place
             (if length (header_name_translation s2) > 0
              then translate_request_header_names_obj (header_name_translation s2) st
              else st))"
    by (rule sort_in_place_fresh)
  then show ?thesis
    by (simp only: unfolded st0)
qed

text \<open>
  When no helper runs, \<^verbatim>\<open>r1\<close> is still the argument at line 52, and it is the argument's
  own header list that is sorted.
\<close>

lemma normalize_request_obj_in_place:
  assumes "removal_names s1 s2 = []" and "header_name_translation s2 = []"
  shows "normalize_request_obj h r1 s1 s2 = sort_headers_in_place (h, r1)"
  using assms by (simp add: normalize_request_obj_def removal_names_def)

text \<open>
  Claim C3 (the call returns a new request and leaves its argument unchanged), at the input
  where the code departs from it. Both profiles are without quirks, and the request at
  reference 0 has the headers \<open>b\<close>, \<open>a\<close> in this order. The call returns reference 0 itself,
  and afterwards the request at reference 0 has the headers \<open>a\<close>, \<open>b\<close>: the argument, and
  with it the result sequence that holds it, has been modified.
\<close>

theorem normalize_sorts_argument_in_place:
  "snd (normalize_request_obj heap0 0 no_quirks no_quirks) = 0
   \<and> headers (objs heap0 0) = [(''b'', ''2''), (''a'', ''1'')]
   \<and> headers (objs (fst (normalize_request_obj heap0 0 no_quirks no_quirks)) 0)
     = [(''a'', ''1''), (''b'', ''2'')]"
  by (simp add: normalize_request_obj_def sort_headers_in_place_def heap0_def example_defs)


end
